theory Spec2Isabelle
  imports
    Main
    "HOL-Library.Word"
    "HOL-Library.Char_ord"
    "HOL-Library.List_Lexorder"
    "HOL-Library.Multiset"
begin

unbundle bit_operations_syntax

section \<open>Data model\<close>

text \<open>
  The library (\<^verbatim>\<open>src/index.ts\<close>) signs and verifies Cosmos transactions. Its types live
  in \<^verbatim>\<open>./types\<close>, which is not part of the sources at hand; the records below follow the
  way \<^verbatim>\<open>index.ts\<close> builds and reads the values (object literals and field accesses) and
  the data model of the specification.

  \<^verbatim>\<open>Bytes\<close> is a sequence of octets. The fee and the messages of a transaction are
  arbitrary JSON values.
\<close>

type_synonym Bytes = "8 word list"

type_synonym Bech32String = string

datatype json =
    JNull
  | JBool bool
  | JNumber int
  | JString string
  | JArray "json list"
  | JObject "(string \<times> json) list"

record KeyPair =
  privateKey :: Bytes
  publicKey :: Bytes

record Wallet = KeyPair +
  address :: Bech32String

record SignMeta =
  account_number :: string
  chain_id :: string
  sequence :: string

text \<open>
  A transaction has the fields \<^verbatim>\<open>fee\<close>, \<^verbatim>\<open>memo\<close> and \<^verbatim>\<open>msg\<close>; whatever sibling fields it
  carries besides are the extension part of the record (\<open>Tx.more\<close>). A signed transaction
  \<^verbatim>\<open>StdTx\<close> has the field \<^verbatim>\<open>signatures\<close> in addition.
\<close>

record Tx =
  fee :: json
  memo :: string
  msg :: "json list"

text \<open>The fields of \<^verbatim>\<open>pub_key\<close> are \<^verbatim>\<open>type\<close> and \<^verbatim>\<open>value\<close> in the source.\<close>

record PubKey =
  pk_type :: string
  pk_value :: string

record StdSignature =
  signature :: string
  pub_key :: PubKey

record StdTx = Tx +
  signatures :: "StdSignature list"

text \<open>
  The sign message. Its field names \<^verbatim>\<open>account_number\<close>, \<^verbatim>\<open>chain_id\<close>, \<^verbatim>\<open>fee\<close>,
  \<^verbatim>\<open>memo\<close>, \<^verbatim>\<open>msgs\<close>, \<^verbatim>\<open>sequence\<close> are those of the source, prefixed here with \<open>sm_\<close>
  where they would hide the fields of \<open>SignMeta\<close> and \<open>Tx\<close>.
\<close>

record StdSignMsg =
  sm_account_number :: string
  sm_chain_id :: string
  sm_fee :: json
  sm_memo :: string
  msgs :: "json list"
  sm_sequence :: string

text \<open>The argument of \<^verbatim>\<open>signTx\<close> has the type \<^verbatim>\<open>Tx | StdTx\<close>.\<close>

datatype 'a TxOrStdTx =
    IsTx "'a Tx_scheme"
  | IsStdTx "'a StdTx_scheme"

record 'a BroadcastTx =
  tx :: "'a StdTx_scheme"
  mode :: string

section \<open>Constants\<close>

definition COSMOS_PREFIX :: string where
  "COSMOS_PREFIX = ''cosmos''"

definition COSMOS_PATH :: string where
  "COSMOS_PATH = ''m/44'/118'/0'/0/0''"

definition BROADCAST_MODE_SYNC :: string where
  "BROADCAST_MODE_SYNC = ''sync''"

definition BROADCAST_MODE_ASYNC :: string where
  "BROADCAST_MODE_ASYNC = ''async''"

definition BROADCAST_MODE_BLOCK :: string where
  "BROADCAST_MODE_BLOCK = ''block''"

section \<open>The sign message\<close>

definition createSignMsg :: "'a Tx_scheme \<Rightarrow> SignMeta \<Rightarrow> StdSignMsg" where
  "createSignMsg t meta =
     \<lparr> sm_account_number = account_number meta,
       sm_chain_id = chain_id meta,
       sm_fee = fee t,
       sm_memo = memo t,
       msgs = msg t,
       sm_sequence = sequence meta \<rparr>"

section \<open>Collaborators\<close>

text \<open>
  \<^verbatim>\<open>index.ts\<close> calls functions of other packages: the hash functions of \<^verbatim>\<open>create-hash\<close>, the
  elliptic-curve functions of \<^verbatim>\<open>secp256k1\<close>, the codec of \<^verbatim>\<open>bech32\<close>, and the base64
  helpers that \<^verbatim>\<open>./util\<close> exports. They are parameters of the model, collected in one
  record, with the interface the source uses them at:
  \<^item> \<^verbatim>\<open>createHash('sha256').update(b).digest()\<close> is \<open>sha256 P b\<close>, and likewise
    \<open>ripemd160\<close>;
  \<^item> \<^verbatim>\<open>secp256k1Sign(hash, key).signature\<close> is \<open>secp256k1Sign P hash key\<close>; it is \<open>None\<close>
    where the signer throws (the source documents that \<^verbatim>\<open>sign\<close> throws if the private key
    is invalid);
  \<^item> \<^verbatim>\<open>secp256k1Verify(hash, signature, publicKey)\<close> answers with a boolean;
  \<^item> \<^verbatim>\<open>bech32Encode(prefix, words)\<close> is \<open>bech32Encode P prefix words\<close>; it is \<open>None\<close> where
    the encoder throws: a bech32 string has at most 90 characters and its human-readable
    part has printable characters only, so an encoder does not accept every prefix.
\<close>

record collaborators =
  sha256 :: "Bytes \<Rightarrow> Bytes"
  ripemd160 :: "Bytes \<Rightarrow> Bytes"
  secp256k1PublicKeyCreate :: "Bytes \<Rightarrow> bool \<Rightarrow> Bytes"
  secp256k1Sign :: "Bytes \<Rightarrow> Bytes \<Rightarrow> Bytes option"
  secp256k1Verify :: "Bytes \<Rightarrow> Bytes \<Rightarrow> Bytes \<Rightarrow> bool"
  bech32ToWords :: "Bytes \<Rightarrow> 5 word list"
  bech32Encode :: "string \<Rightarrow> 5 word list \<Rightarrow> Bech32String option"
  base64ToBytes :: "string \<Rightarrow> Bytes"
  bytesToBase64 :: "Bytes \<Rightarrow> string"

text \<open>
  A BIP32 master key is used through \<^verbatim>\<open>masterKey.derivePath(path)\<close> alone, which gives a
  derived key; the \<^verbatim>\<open>privateKey\<close> of a derived key may be absent.
\<close>

datatype BIP32Node =
  BIP32Node (bip32_privateKey: "Bytes option")

record BIP32Interface =
  derivePath :: "string \<Rightarrow> BIP32Node"

text \<open>The ways in which the operations fail.\<close>

datatype error =
    DerivationError  \<comment> \<open>\<^verbatim>\<open>throw new Error('could not derive private key')\<close>\<close>
  | SigningError     \<comment> \<open>thrown by the elliptic-curve signer\<close>
  | Bech32Error      \<comment> \<open>thrown by the bech32 encoder\<close>

section \<open>Canonical JSON\<close>

text \<open>
  Modelled from the spec: \<^verbatim>\<open>toCanonicalJSONBytes\<close> is imported from \<^verbatim>\<open>./util\<close>, which is
  missing from the sources at hand. The specification (4.1, 9) gives its rules: the keys of
  an object are sorted lexicographically, byte-wise, at every nesting level (collect the
  keys, sort them, emit in that order, recursing into nested structures); arrays keep the
  order of their elements; numbers and strings have one textual representation; no
  insignificant whitespace is emitted.

  \<open>toCanonicalJSONClone\<close> sorts the keys, \<open>stringify\<close> writes the text, and
  \<open>toCanonicalJSONBytes\<close> is the text as bytes. A \<open>string\<close> is a list of 8-bit
  characters and stands for the UTF-8 encoding of the text.
\<close>

fun toCanonicalJSONClone :: "json \<Rightarrow> json" where
  "toCanonicalJSONClone (JArray xs) = JArray (map toCanonicalJSONClone xs)"
| "toCanonicalJSONClone (JObject kvs) =
     JObject (sort_key fst (map (\<lambda>(k, v). (k, toCanonicalJSONClone v)) kvs))"
| "toCanonicalJSONClone v = v"

function show_nat :: "nat \<Rightarrow> string" where
  "show_nat n =
     (if n < 10 then [char_of (48 + n)]
      else show_nat (n div 10) @ [char_of (48 + n mod 10)])"
  by pat_completeness auto
termination
  by (relation "measure id") auto

definition show_int :: "int \<Rightarrow> string" where
  "show_int i = (if i < 0 then CHR ''-'' # show_nat (nat (- i)) else show_nat (nat i))"

definition hex_digit :: "nat \<Rightarrow> char" where
  "hex_digit n = (if n < 10 then char_of (48 + n) else char_of (87 + n))"

text \<open>
  A string is written between double quotes; the double quote (\<open>0x22\<close>) and the
  backslash (\<open>0x5C\<close>) are escaped with a backslash and a control character is written
  \<^verbatim>\<open>\u00XX\<close>.
\<close>

definition escape_char :: "char \<Rightarrow> string" where
  "escape_char c =
     (if c = CHR 0x22 then [CHR 0x5C, CHR 0x22]
      else if c = CHR 0x5C then [CHR 0x5C, CHR 0x5C]
      else if (of_char c :: nat) < 32
        then [CHR 0x5C, CHR ''u'', CHR ''0'', CHR ''0'',
              hex_digit (of_char c div 16), hex_digit (of_char c mod 16)]
      else [c])"

definition quote :: "string \<Rightarrow> string" where
  "quote s = CHR 0x22 # concat (map escape_char s) @ [CHR 0x22]"

fun join :: "string \<Rightarrow> string list \<Rightarrow> string" where
  "join sep [] = []"
| "join sep [x] = x"
| "join sep (x # y # ys) = x @ sep @ join sep (y # ys)"

fun stringify :: "json \<Rightarrow> string" where
  "stringify JNull = ''null''"
| "stringify (JBool b) = (if b then ''true'' else ''false'')"
| "stringify (JNumber n) = show_int n"
| "stringify (JString s) = quote s"
| "stringify (JArray xs) = ''['' @ join '','' (map stringify xs) @ '']''"
| "stringify (JObject kvs) =
     ''{'' @ join '','' (map (\<lambda>(k, v). quote k @ '':'' @ stringify v) kvs) @ ''}''"

definition toCanonicalJSON :: "json \<Rightarrow> string" where
  "toCanonicalJSON v = stringify (toCanonicalJSONClone v)"

definition toCanonicalJSONBytes :: "json \<Rightarrow> Bytes" where
  "toCanonicalJSONBytes v = map of_char (toCanonicalJSON v)"

text \<open>
  The sign message as the JSON object that \<^verbatim>\<open>createSignMsg\<close> builds, its keys in the order
  of the object literal.
\<close>

definition StdSignMsg_json :: "StdSignMsg \<Rightarrow> json" where
  "StdSignMsg_json m =
     JObject
       [(''account_number'', JString (sm_account_number m)),
        (''chain_id'', JString (sm_chain_id m)),
        (''fee'', sm_fee m),
        (''memo'', JString (sm_memo m)),
        (''msgs'', JArray (msgs m)),
        (''sequence'', JString (sm_sequence m))]"

text \<open>
  Two JSON values are the same up to the order in which the keys of their objects were
  inserted: atoms are equal, arrays agree element by element, and the entries of an object
  (whose keys are distinct) are those of the other object in some order, the values again
  the same up to key order.
\<close>

inductive same_up_to_key_order :: "json \<Rightarrow> json \<Rightarrow> bool" where
  null: "same_up_to_key_order JNull JNull"
| bool: "same_up_to_key_order (JBool b) (JBool b)"
| number: "same_up_to_key_order (JNumber n) (JNumber n)"
| string: "same_up_to_key_order (JString s) (JString s)"
| array: "list_all2 same_up_to_key_order xs ys
    \<Longrightarrow> same_up_to_key_order (JArray xs) (JArray ys)"
| object: "list_all2 (rel_prod (=) same_up_to_key_order) kvs kvs'
    \<Longrightarrow> mset kvs' = mset kvs''
    \<Longrightarrow> distinct (map fst kvs)
    \<Longrightarrow> same_up_to_key_order (JObject kvs) (JObject kvs'')"

text \<open>The keys of every object inside a value are in ascending order.\<close>

fun keys_sorted :: "json \<Rightarrow> bool" where
  "keys_sorted (JArray xs) = list_all keys_sorted xs"
| "keys_sorted (JObject kvs) =
     (sorted (map fst kvs) \<and> list_all (\<lambda>(k, v). keys_sorted v) kvs)"
| "keys_sorted v = True"

section \<open>Keys and addresses\<close>

definition createKeyPairFromMasterKey ::
  "collaborators \<Rightarrow> BIP32Interface \<Rightarrow> string option \<Rightarrow> error + KeyPair" where
  "createKeyPairFromMasterKey P masterKey path_opt =
     (let path = (case path_opt of None \<Rightarrow> COSMOS_PATH | Some p \<Rightarrow> p) in
      case bip32_privateKey (derivePath masterKey path) of
        None \<Rightarrow> Inl DerivationError
      | Some privKey \<Rightarrow>
          Inr \<lparr> privateKey = privKey,
                publicKey = secp256k1PublicKeyCreate P privKey True \<rparr>)"

text \<open>
  \<^verbatim>\<open>createAddress\<close> has no \<^verbatim>\<open>try\<close>: what the encoder throws leaves the function, and with
  it \<^verbatim>\<open>createWalletFromMasterKey\<close>.
\<close>

definition createAddress ::
  "collaborators \<Rightarrow> Bytes \<Rightarrow> string option \<Rightarrow> error + Bech32String" where
  "createAddress P pubKey prefix_opt =
     (let prefix = (case prefix_opt of None \<Rightarrow> COSMOS_PREFIX | Some p \<Rightarrow> p);
          hash1 = sha256 P pubKey;
          hash2 = ripemd160 P hash1;
          words = bech32ToWords P hash2
      in case bech32Encode P prefix words of
           None \<Rightarrow> Inl Bech32Error
         | Some encoded \<Rightarrow> Inr encoded)"

definition createWalletFromMasterKey ::
  "collaborators \<Rightarrow> BIP32Interface \<Rightarrow> string option \<Rightarrow> string option \<Rightarrow> error + Wallet" where
  "createWalletFromMasterKey P masterKey prefix_opt path_opt =
     (case createKeyPairFromMasterKey P masterKey
             (Some (case path_opt of None \<Rightarrow> COSMOS_PATH | Some p \<Rightarrow> p)) of
        Inl e \<Rightarrow> Inl e
      | Inr kp \<Rightarrow>
          (case createAddress P (publicKey kp)
                  (Some (case prefix_opt of None \<Rightarrow> COSMOS_PREFIX | Some p \<Rightarrow> p)) of
             Inl e \<Rightarrow> Inl e
           | Inr addr \<Rightarrow>
               Inr \<lparr> privateKey = privateKey kp,
                     publicKey = publicKey kp,
                     address = addr \<rparr>))"

section \<open>Signing\<close>

definition sign :: "collaborators \<Rightarrow> Bytes \<Rightarrow> Bytes \<Rightarrow> error + Bytes" where
  "sign P bytes privKey =
     (let hash = sha256 P bytes in
      case secp256k1Sign P hash privKey of
        None \<Rightarrow> Inl SigningError
      | Some sig \<Rightarrow> Inr sig)"

definition createSignatureBytes :: "collaborators \<Rightarrow> StdSignMsg \<Rightarrow> Bytes \<Rightarrow> error + Bytes" where
  "createSignatureBytes P signMsg privKey =
     (let bytes = toCanonicalJSONBytes (StdSignMsg_json signMsg) in sign P bytes privKey)"

definition createSignature ::
  "collaborators \<Rightarrow> StdSignMsg \<Rightarrow> 'k KeyPair_scheme \<Rightarrow> error + StdSignature" where
  "createSignature P signMsg keyPair =
     (case createSignatureBytes P signMsg (privateKey keyPair) of
        Inl e \<Rightarrow> Inl e
      | Inr signatureBytes \<Rightarrow>
          Inr \<lparr> signature = bytesToBase64 P signatureBytes,
                pub_key = \<lparr> pk_type = ''tendermint/PubKeySecp256k1'',
                            pk_value = bytesToBase64 P (publicKey keyPair) \<rparr> \<rparr>)"

text \<open>
  \<^verbatim>\<open>signTx\<close>: the sign message and the signature are computed first; the result is the
  spread \<^verbatim>\<open>{ ...tx, signatures }\<close>, where \<^verbatim>\<open>signatures\<close> is \<^verbatim>\<open>[...tx.signatures, signature]\<close>
  if the transaction has the field and \<^verbatim>\<open>[signature]\<close> otherwise.
\<close>

definition signTx ::
  "collaborators \<Rightarrow> 'a TxOrStdTx \<Rightarrow> SignMeta \<Rightarrow> 'k KeyPair_scheme \<Rightarrow> error + 'a StdTx_scheme" where
  "signTx P t meta keyPair =
     (let signMsg = (case t of IsTx u \<Rightarrow> createSignMsg u meta
                             | IsStdTx s \<Rightarrow> createSignMsg s meta) in
      case createSignature P signMsg keyPair of
        Inl e \<Rightarrow> Inl e
      | Inr sig \<Rightarrow>
          Inr (case t of
                 IsTx u \<Rightarrow>
                   \<lparr> fee = fee u, memo = memo u, msg = msg u,
                     signatures = [sig], \<dots> = Tx.more u \<rparr>
               | IsStdTx s \<Rightarrow> s\<lparr> signatures := signatures s @ [sig] \<rparr>))"

section \<open>Verifying\<close>

text \<open>\<^verbatim>\<open>Array.prototype.every\<close>: stops at the first element that fails the test.\<close>

fun every :: "('a \<Rightarrow> bool) \<Rightarrow> 'a list \<Rightarrow> bool" where
  "every p [] = True"
| "every p (x # xs) = (if p x then every p xs else False)"

definition verifySignatureBytes ::
  "collaborators \<Rightarrow> StdSignMsg \<Rightarrow> Bytes \<Rightarrow> Bytes \<Rightarrow> bool" where
  "verifySignatureBytes P signMsg sig pubKey =
     (let bytes = toCanonicalJSONBytes (StdSignMsg_json signMsg);
          hash = sha256 P bytes
      in secp256k1Verify P hash sig pubKey)"

definition verifySignature :: "collaborators \<Rightarrow> StdSignMsg \<Rightarrow> StdSignature \<Rightarrow> bool" where
  "verifySignature P signMsg sig =
     (let signatureBytes = base64ToBytes P (signature sig);
          pubKey = base64ToBytes P (pk_value (pub_key sig))
      in verifySignatureBytes P signMsg signatureBytes pubKey)"

definition verifySignatures :: "collaborators \<Rightarrow> StdSignMsg \<Rightarrow> StdSignature list \<Rightarrow> bool" where
  "verifySignatures P signMsg sigs =
     (if length sigs > 0 then every (\<lambda>sig. verifySignature P signMsg sig) sigs
      else False)"

definition verifyTx :: "collaborators \<Rightarrow> 'a StdTx_scheme \<Rightarrow> SignMeta \<Rightarrow> bool" where
  "verifyTx P t meta =
     (let signMsg = createSignMsg t meta in verifySignatures P signMsg (signatures t))"

section \<open>Broadcast\<close>

definition createBroadcastTx :: "'a StdTx_scheme \<Rightarrow> string option \<Rightarrow> 'a BroadcastTx" where
  "createBroadcastTx t mode_opt =
     \<lparr> tx = t,
       mode = (case mode_opt of None \<Rightarrow> BROADCAST_MODE_SYNC | Some m \<Rightarrow> m) \<rparr>"

section \<open>Notions used in the statements\<close>

text \<open>
  The digest that the signer signs (\<^verbatim>\<open>createSignatureBytes\<close>, \<^verbatim>\<open>sign\<close>) and that the verifier
  checks (\<^verbatim>\<open>verifySignatureBytes\<close>): the SHA-256 hash of the canonical bytes of the sign
  message.
\<close>

definition signDigest :: "collaborators \<Rightarrow> StdSignMsg \<Rightarrow> Bytes" where
  "signDigest P signMsg = sha256 P (toCanonicalJSONBytes (StdSignMsg_json signMsg))"

text \<open>
  The signatures that the argument of \<^verbatim>\<open>signTx\<close> carries already, none if it has no field
  \<^verbatim>\<open>signatures\<close>, and the sign message of that argument.
\<close>

primrec attached :: "'a TxOrStdTx \<Rightarrow> StdSignature list" where
  "attached (IsTx u) = []"
| "attached (IsStdTx s) = signatures s"

primrec signMsgOf :: "'a TxOrStdTx \<Rightarrow> SignMeta \<Rightarrow> StdSignMsg" where
  "signMsgOf (IsTx u) meta = createSignMsg u meta"
| "signMsgOf (IsStdTx s) meta = createSignMsg s meta"

section \<open>Example values\<close>

text \<open>
  The theorems below hold for all collaborators, some of them under the contract that
  signatures made by the signer verify and that base64 decoding inverts the encoding. To
  apply the theorems to concrete transactions, \<open>stand_in\<close> gives simple functions with
  the interface of the collaborators that meet this contract. They are not the real hash
  functions, curve or base64: the "digest" of SHA-256 is the length and the byte sum of
  the input, that of RIPEMD-160 is twenty bytes made from the byte sum, a "signature" is
  the digest followed by the public key of the signer, and the "base64" text of a byte is
  the character of the same code.

  The stand-in for the bech32 codec is the encoding of BIP 173: bytes are regrouped into
  5-bit words, most significant bit first and padded with zero bits; the encoder rejects a
  string of more than 90 characters (prefix, separator, words and six checksum characters)
  and a prefix with a character outside the codes 33 to 126, lowers the case of the
  prefix, and appends the checksum.
\<close>

definition bip173_alphabet :: string where
  "bip173_alphabet = ''qpzry9x8gf2tvdw0s3jn54khce6mua7l''"

definition bip173_polymodStep :: "32 word \<Rightarrow> 32 word" where
  "bip173_polymodStep pre =
     (let b = drop_bit 25 pre in
      push_bit 5 (pre AND 0x1FFFFFF)
        XOR (if bit b 0 then 0x3b6a57b2 else 0)
        XOR (if bit b 1 then 0x26508e6d else 0)
        XOR (if bit b 2 then 0x1ea119fa else 0)
        XOR (if bit b 3 then 0x3d4233dd else 0)
        XOR (if bit b 4 then 0x2a1462b3 else 0))"

definition ascii_lower :: "char \<Rightarrow> char" where
  "ascii_lower c =
     (if 65 \<le> (of_char c :: nat) \<and> (of_char c :: nat) \<le> 90
      then char_of (of_char c + 32 :: nat) else c)"

definition bip173_prefixChk :: "string \<Rightarrow> 32 word option" where
  "bip173_prefixChk prefix =
     (if list_ex (\<lambda>c. (of_char c :: nat) < 33 \<or> (of_char c :: nat) > 126) prefix then None
      else Some
        (fold (\<lambda>c chk. bip173_polymodStep chk XOR (of_char c AND 0x1f)) prefix
           (bip173_polymodStep
              (fold (\<lambda>c chk. bip173_polymodStep chk XOR drop_bit 5 (of_char c)) prefix 1))))"

definition bip173_encode :: "string \<Rightarrow> 5 word list \<Rightarrow> string option" where
  "bip173_encode prefix ws =
     (if length prefix + 7 + length ws > 90 then None
      else case bip173_prefixChk (map ascii_lower prefix) of
        None \<Rightarrow> None
      | Some chk0 \<Rightarrow>
          (let chk1 = fold (\<lambda>x chk. bip173_polymodStep chk XOR ucast x) ws chk0;
               chk2 = fold (\<lambda>i chk. bip173_polymodStep chk) [0, 1, 2, 3, 4, 5 :: nat] chk1 XOR 1
           in Some (map ascii_lower prefix @ ''1''
                @ map (\<lambda>x. bip173_alphabet ! unat x) ws
                @ map (\<lambda>i. bip173_alphabet ! unat (drop_bit ((5 - i) * 5) chk2 AND 0x1f))
                    [0, 1, 2, 3, 4, 5])))"

fun bip173_drain :: "32 word \<Rightarrow> nat \<Rightarrow> 5 word list" where
  "bip173_drain v bits =
     (if bits \<ge> 5 then ucast (drop_bit (bits - 5) v AND 31) # bip173_drain v (bits - 5)
      else [])"

fun bip173_convert :: "32 word \<Rightarrow> nat \<Rightarrow> Bytes \<Rightarrow> 5 word list" where
  "bip173_convert v bits [] =
     (if bits > 0 then [ucast (push_bit (5 - bits) v AND 31)] else [])"
| "bip173_convert v bits (d # ds) =
     (let v' = push_bit 8 v OR ucast d; bits' = bits + 8
      in bip173_drain v' bits' @ bip173_convert v' (bits' mod 5) ds)"

definition bip173_toWords :: "Bytes \<Rightarrow> 5 word list" where
  "bip173_toWords bs = bip173_convert 0 0 bs"

definition stand_in :: collaborators where
  "stand_in =
     \<lparr> sha256 = (\<lambda>b. [of_nat (length b), sum_list b]),
       ripemd160 = (\<lambda>b. map (\<lambda>i. sum_list b + i)
                      [1, 2, 3, 4, 5, 6, 7, 8, 9, 10, 11, 12, 13, 14, 15, 16, 17, 18, 19, 20]),
       secp256k1PublicKeyCreate = (\<lambda>k compressed. map (\<lambda>x. x + 1) k),
       secp256k1Sign = (\<lambda>h k. if k = [] then None else Some (h @ map (\<lambda>x. x + 1) k)),
       secp256k1Verify = (\<lambda>h s p. s = h @ p),
       bech32ToWords = bip173_toWords,
       bech32Encode = bip173_encode,
       base64ToBytes = map (\<lambda>c. of_nat (of_char c)),
       bytesToBase64 = map (\<lambda>b. char_of (unat b)) \<rparr>"

text \<open>
  A compressed public key of 33 bytes (the generator of secp256k1), and a prefix of 52
  characters.
\<close>

definition example_publicKey :: Bytes where
  "example_publicKey =
     [0x02,
      0x79, 0xBE, 0x66, 0x7E, 0xF9, 0xDC, 0xBB, 0xAC, 0x55, 0xA0, 0x62, 0x95, 0xCE, 0x87, 0x0B,
      0x07, 0x02, 0x9B, 0xFC, 0xDB, 0x2D, 0xCE, 0x28, 0xD9, 0x59, 0xF2, 0x81, 0x5B, 0x16, 0xF8,
      0x17, 0x98]"

definition long_prefix :: string where
  "long_prefix = ''cosmoscosmoscosmoscosmoscosmoscosmoscosmoscosmoscosm''"

definition example_meta :: SignMeta where
  "example_meta = \<lparr> account_number = ''0'', chain_id = ''test-chain'', sequence = ''0'' \<rparr>"

text \<open>The metadata of the next transaction of the same account.\<close>

definition other_meta :: SignMeta where
  "other_meta = \<lparr> account_number = ''0'', chain_id = ''test-chain'', sequence = ''1'' \<rparr>"

definition example_tx :: Tx where
  "example_tx =
     \<lparr> fee = JObject [(''gas'', JString ''200000''), (''amount'', JArray [])],
       memo = [],
       msg = [] \<rparr>"

definition example_keyPair :: KeyPair where
  "example_keyPair = \<lparr> privateKey = [1, 2, 3], publicKey = [2, 3, 4] \<rparr>"

definition second_keyPair :: KeyPair where
  "second_keyPair = \<lparr> privateKey = [7, 7], publicKey = [8, 8] \<rparr>"

text \<open>
  \<open>example_tx\<close> signed with \<open>second_keyPair\<close> under \<open>stand_in\<close>: the signature is the
  digest \<open>[0x74, 0xE2]\<close> of the sign message followed by the public key.
\<close>

definition example_stdTx :: StdTx where
  "example_stdTx =
     \<lparr> fee = fee example_tx, memo = memo example_tx, msg = msg example_tx,
       signatures =
         [\<lparr> signature = [CHR 0x74, CHR 0xE2, CHR 0x08, CHR 0x08],
            pub_key = \<lparr> pk_type = ''tendermint/PubKeySecp256k1'',
                        pk_value = [CHR 0x08, CHR 0x08] \<rparr> \<rparr>] \<rparr>"

text \<open>The signature that \<open>example_keyPair\<close> makes of \<open>example_tx\<close> under \<open>stand_in\<close>.\<close>

definition example_signature :: StdSignature where
  "example_signature =
     \<lparr> signature = [CHR 0x74, CHR 0xE2, CHR 0x02, CHR 0x03, CHR 0x04],
       pub_key = \<lparr> pk_type = ''tendermint/PubKeySecp256k1'',
                   pk_value = [CHR 0x02, CHR 0x03, CHR 0x04] \<rparr> \<rparr>"

text \<open>\<open>example_stdTx\<close> signed once more, with \<open>example_keyPair\<close>.\<close>

definition twice_signed :: StdTx where
  "twice_signed =
     example_stdTx\<lparr> signatures := signatures example_stdTx @ [example_signature] \<rparr>"

text \<open>
  The signature that \<open>example_keyPair\<close> makes of \<open>example_tx\<close> with \<open>other_meta\<close>: the
  digest is another one.
\<close>

definition other_signature :: StdSignature where
  "other_signature =
     \<lparr> signature = [CHR 0x74, CHR 0xE3, CHR 0x02, CHR 0x03, CHR 0x04],
       pub_key = \<lparr> pk_type = ''tendermint/PubKeySecp256k1'',
                   pk_value = [CHR 0x02, CHR 0x03, CHR 0x04] \<rparr> \<rparr>"

text \<open>
  The sign message of \<open>example_tx\<close> and \<open>example_meta\<close> as a JSON object whose keys were
  inserted in another order, at the top level and inside the fee.
\<close>

definition reordered_signMsg :: json where
  "reordered_signMsg =
     JObject
       [(''sequence'', JString ''0''),
        (''msgs'', JArray []),
        (''fee'', JObject [(''amount'', JArray []), (''gas'', JString ''200000'')]),
        (''memo'', JString []),
        (''chain_id'', JString ''test-chain''),
        (''account_number'', JString ''0'')]"

text \<open>A master key that derives a private key at the Cosmos path and at no other path.\<close>

definition example_masterKey :: BIP32Interface where
  "example_masterKey =
     \<lparr> derivePath = (\<lambda>path. if path = COSMOS_PATH then BIP32Node (Some [1, 2, 3])
                              else BIP32Node None) \<rparr>"

section \<open>Auxiliary facts\<close>

lemma every_iff: "every p xs \<longleftrightarrow> (\<forall>x\<in>set xs. p x)"
  by (induction xs) auto

lemma verifySignature_digest:
  "verifySignature P signMsg g \<longleftrightarrow>
     secp256k1Verify P (signDigest P signMsg)
       (base64ToBytes P (signature g)) (base64ToBytes P (pk_value (pub_key g)))"
  by (simp add: verifySignature_def verifySignatureBytes_def signDigest_def)

lemma verifySignatures_iff:
  "verifySignatures P signMsg sigs \<longleftrightarrow>
     sigs \<noteq> [] \<and> (\<forall>g\<in>set sigs. verifySignature P signMsg g)"
  by (simp add: verifySignatures_def every_iff)

lemma createSignatureBytes_digest:
  "createSignatureBytes P signMsg privKey =
     (case secp256k1Sign P (signDigest P signMsg) privKey of
        None \<Rightarrow> Inl SigningError | Some sb \<Rightarrow> Inr sb)"
  by (simp add: createSignatureBytes_def sign_def signDigest_def)

lemma createSignature_Some:
  assumes "secp256k1Sign P (signDigest P signMsg) (privateKey keyPair) = Some sb"
  shows "createSignature P signMsg keyPair =
           Inr \<lparr> signature = bytesToBase64 P sb,
                 pub_key = \<lparr> pk_type = ''tendermint/PubKeySecp256k1'',
                             pk_value = bytesToBase64 P (publicKey keyPair) \<rparr> \<rparr>"
  using assms by (simp add: createSignature_def createSignatureBytes_digest)

lemma createSignature_None:
  assumes "secp256k1Sign P (signDigest P signMsg) (privateKey keyPair) = None"
  shows "createSignature P signMsg keyPair = Inl SigningError"
  using assms by (simp add: createSignature_def createSignatureBytes_digest)

lemma signTx_Inr:
  assumes "createSignature P (signMsgOf t meta) keyPair = Inr g"
  shows "signTx P t meta keyPair =
           Inr (case t of
                  IsTx u \<Rightarrow> \<lparr> fee = fee u, memo = memo u, msg = msg u,
                              signatures = [g], \<dots> = Tx.more u \<rparr>
                | IsStdTx s \<Rightarrow> s\<lparr> signatures := signatures s @ [g] \<rparr>)"
  using assms by (cases t) (simp_all add: signTx_def)

lemma signTx_Inl:
  assumes "createSignature P (signMsgOf t meta) keyPair = Inl e"
  shows "signTx P t meta keyPair = Inl e"
  using assms by (cases t) (simp_all add: signTx_def)

lemma signTx_signMsg:
  assumes "signTx P t meta keyPair = Inr r"
  shows "createSignMsg r meta = signMsgOf t meta"
  using assms
  by (cases t) (auto simp: signTx_def createSignMsg_def split: sum.splits)

text \<open>
  Signing keeps a signature that does not verify, for any collaborators: the signed
  transaction then does not verify either.
\<close>

lemma signTx_keeps_failing_signature:
  assumes "g \<in> set (attached t)"
    and "\<not> verifySignature P (signMsgOf t meta) g"
    and "signTx P t meta keyPair = Inr r"
  shows "\<not> verifyTx P r meta"
proof -
  obtain h where h: "createSignature P (signMsgOf t meta) keyPair = Inr h"
    using assms(3) by (cases "createSignature P (signMsgOf t meta) keyPair")
      (auto simp: signTx_Inl)
  have "signatures r = attached t @ [h]"
    using assms(3) h by (cases t) (auto simp: signTx_Inr)
  then have "g \<in> set (signatures r)" using assms(1) by simp
  moreover have "createSignMsg r meta = signMsgOf t meta"
    using assms(3) by (rule signTx_signMsg)
  ultimately show ?thesis
    using assms(2) by (auto simp: verifyTx_def verifySignatures_iff)
qed

text \<open>The stand-in collaborators meet the contract of the signer and of the codec.\<close>

lemma stand_in_ecdsa:
  "secp256k1Sign stand_in h k = Some s
     \<Longrightarrow> secp256k1Verify stand_in h s (secp256k1PublicKeyCreate stand_in k True)"
  by (auto simp: stand_in_def split: if_splits)

lemma byte_mod_256: "word_of_nat (unat (a :: 8 word) mod 256) = a"
proof -
  have "unat a < 2 ^ LENGTH(8)" by (rule unsigned_less)
  then have "unat a mod 256 = unat a" by simp
  then show ?thesis by simp
qed

lemma stand_in_base64: "base64ToBytes stand_in (bytesToBase64 stand_in b) = b"
  by (induction b) (simp_all add: stand_in_def byte_mod_256)

lemma example_keyPair_pair:
  "publicKey example_keyPair
     = secp256k1PublicKeyCreate stand_in (privateKey example_keyPair) True"
  by (simp add: example_keyPair_def stand_in_def)

subsection \<open>Canonical JSON\<close>

lemma clone_map_eq:
  assumes "list_all2 (rel_prod (=) (\<lambda>v w. toCanonicalJSONClone v = toCanonicalJSONClone w))
             kvs kvs'"
  shows "map (\<lambda>(k, v). (k, toCanonicalJSONClone v)) kvs
       = map (\<lambda>(k, v). (k, toCanonicalJSONClone v)) kvs'"
  using assms by (induction rule: list_all2_induct) auto

lemma same_up_to_key_order_clone:
  "same_up_to_key_order a b \<Longrightarrow> toCanonicalJSONClone a = toCanonicalJSONClone b"
proof (induction rule: same_up_to_key_order.induct)
  case (array xs ys)
  then have "map toCanonicalJSONClone xs = map toCanonicalJSONClone ys"
    by (induction rule: list_all2_induct) auto
  then show ?case by simp
next
  case (object kvs kvs' kvs'')
  let ?g = "\<lambda>(k, v). (k, toCanonicalJSONClone v)"
  have "list_all2 (rel_prod (=) (\<lambda>v w. toCanonicalJSONClone v = toCanonicalJSONClone w))
          kvs kvs'"
    using object(1) by (rule list_all2_mono) auto
  then have 1: "map ?g kvs = map ?g kvs'" by (rule clone_map_eq)
  have 2: "mset (map ?g kvs') = mset (map ?g kvs'')" using object(2) by simp
  have "map fst (map ?g kvs) = map fst kvs" by (induction kvs) auto
  then have "distinct (map fst (map ?g kvs'))" using object(3) 1 by simp
  then have 3: "inj_on fst (set (map ?g kvs'))" by (simp only: distinct_map)
  have "sort_key fst (map ?g kvs') = sort_key fst (map ?g kvs'')"
    using 2 3 by (rule sort_key_eq_sort_key)
  with 1 show ?case by simp
qed simp_all

lemma keys_sorted_clone: "keys_sorted (toCanonicalJSONClone v)"
proof (induction v rule: toCanonicalJSONClone.induct)
  case (1 xs)
  then show ?case by (simp add: list_all_iff)
next
  case (2 kvs)
  let ?g = "\<lambda>(k, v). (k, toCanonicalJSONClone v)"
  have "sorted (map fst (sort_key fst (map ?g kvs)))" by simp
  moreover have "list_all (\<lambda>(k, v). keys_sorted v) (sort_key fst (map ?g kvs))"
    using 2 by (auto simp: list_all_iff)
  ultimately show ?case by simp
qed simp_all

lemma insort_key_map_snd:
  "insort_key fst (k, f v) (map (\<lambda>(k, v). (k, f v)) kvs)
     = map (\<lambda>(k, v). (k, f v)) (insort_key fst (k, v) kvs)"
  by (induction kvs) auto

lemma sort_key_map_snd:
  "sort_key fst (map (\<lambda>(k, v). (k, f v)) kvs) = map (\<lambda>(k, v). (k, f v)) (sort_key fst kvs)"
  by (induction kvs) (auto simp: insort_key_map_snd)

lemma toCanonicalJSON_fun: "toCanonicalJSON = (\<lambda>v. stringify (toCanonicalJSONClone v))"
  by (rule ext) (simp add: toCanonicalJSON_def)

lemma toCanonicalJSON_object:
  "toCanonicalJSON (JObject kvs) =
     ''{'' @ join '','' (map (\<lambda>(k, v). quote k @ '':'' @ toCanonicalJSON v) (sort_key fst kvs))
     @ ''}''"
proof -
  let ?emit = "\<lambda>(k, v). quote k @ '':'' @ stringify v"
  let ?clone = "\<lambda>(k, v). (k, toCanonicalJSONClone v)"
  have m: "map ?emit (map ?clone l)
        = map (\<lambda>(k, v). quote k @ '':'' @ toCanonicalJSON v) l" for l
    by (induction l) (auto simp: toCanonicalJSON_def)
  have "toCanonicalJSON (JObject kvs)
        = ''{'' @ join '','' (map ?emit (sort_key fst (map ?clone kvs))) @ ''}''"
    by (simp add: toCanonicalJSON_def)
  also have "sort_key fst (map ?clone kvs) = map ?clone (sort_key fst kvs)"
    by (rule sort_key_map_snd)
  finally show ?thesis by (simp only: m)
qed

lemma toCanonicalJSON_array:
  "toCanonicalJSON (JArray xs) = ''['' @ join '','' (map toCanonicalJSON xs) @ '']''"
  by (simp add: toCanonicalJSON_fun comp_def)

text \<open>
  The canonical text of the sign message of \<open>example_tx\<close> and \<open>example_meta\<close>: the keys of
  the fee, inserted as \<^verbatim>\<open>gas\<close>, \<^verbatim>\<open>amount\<close>, are emitted in ascending order.
\<close>

lemma example_canonical_text:
  \<open>toCanonicalJSON (StdSignMsg_json (createSignMsg example_tx example_meta)) =
     ''{"account_number":"0","chain_id":"test-chain","fee":{"amount":[],"gas":"200000"},"memo":"","msgs":[],"sequence":"0"}''\<close>
  by code_simp

lemma fee_reordered:
  "same_up_to_key_order
     (JObject [(''gas'', JString ''200000''), (''amount'', JArray [])])
     (JObject [(''amount'', JArray []), (''gas'', JString ''200000'')])"
  by (rule same_up_to_key_order.object
        [where kvs' = "[(''gas'', JString ''200000''), (''amount'', JArray [])]"])
     (auto intro: same_up_to_key_order.intros)

lemma signMsg_reordered:
  "same_up_to_key_order (StdSignMsg_json (createSignMsg example_tx example_meta))
     reordered_signMsg"
  unfolding StdSignMsg_json_def createSignMsg_def example_tx_def example_meta_def
    reordered_signMsg_def
  apply simp
  apply (rule same_up_to_key_order.object
        [where kvs' = "[(''account_number'', JString ''0''),
        (''chain_id'', JString ''test-chain''),
        (''fee'', JObject [(''amount'', JArray []), (''gas'', JString ''200000'')]),
        (''memo'', JString []),
        (''msgs'', JArray []),
        (''sequence'', JString ''0'')]"])
    apply (auto intro: same_up_to_key_order.intros fee_reordered)
  done

text \<open>
  The stand-in codec gives the test vectors of BIP 173: the shortest valid string, and the
  address of the witness program \<^verbatim>\<open>751e76e8199196d454941c45d1b3a323f1433bd6\<close> of version 0.
\<close>

lemma bip173_test_vectors:
  "bip173_encode ''A'' [] = Some ''a12uel5l''"
  "bip173_encode ''bc''
     (0 # bip173_toWords
        [0x75, 0x1e, 0x76, 0xe8, 0x19, 0x91, 0x96, 0xd4, 0x54, 0x94,
         0x1c, 0x45, 0xd1, 0xb3, 0xa3, 0x23, 0xf1, 0x43, 0x3b, 0xd6])
     = Some ''bc1qw508d6qejxtdg4y5r3zarvary0c5xw7kv8f3t4''"
  by code_simp+

text \<open>The example transactions are what signing gives under the stand-in collaborators.\<close>

lemma example_stdTx_signed:
  "signTx stand_in (IsTx example_tx) example_meta second_keyPair = Inr example_stdTx"
  by code_simp

lemma twice_signed_signed:
  "signTx stand_in (IsStdTx example_stdTx) example_meta example_keyPair = Inr twice_signed"
  by code_simp

section \<open>Signing and verifying\<close>

text \<open>
  C1. The claim: for every transaction \<open>T\<close>, metadata and key pair \<open>K\<close> whose public key is
  the compressed point of its private key, \<^verbatim>\<open>verifyTx(signTx(T, Meta, K), Meta)\<close> is true.

  \<^verbatim>\<open>signTx\<close> accepts a transaction that is signed already and keeps its signatures, and
  \<^verbatim>\<open>verifyTx\<close> checks every signature of the list, so the claim fails for a transaction that
  carries a signature which does not verify (see the counterexample below).
  As amended: if every signature that \<open>T\<close> carries already verifies against the sign
  message of \<open>T\<close> and the metadata (none is carried by an unsigned transaction), the public
  key of \<open>K\<close> is the one created from its private key, and the signer accepts the private
  key, then \<^verbatim>\<open>signTx\<close> returns a transaction and \<^verbatim>\<open>verifyTx\<close> is true of it with the same
  metadata. The collaborators are any functions such that a signature the signer returns
  for a digest and a private key verifies for that digest under the public key created
  from the private key, and such that base64 decoding inverts the encoding.
\<close>

theorem signTx_verifyTx:
  assumes ecdsa: "\<And>h k s. secp256k1Sign P h k = Some s
                   \<Longrightarrow> secp256k1Verify P h s (secp256k1PublicKeyCreate P k True)"
    and base64: "\<And>b. base64ToBytes P (bytesToBase64 P b) = b"
    and pair: "publicKey keyPair = secp256k1PublicKeyCreate P (privateKey keyPair) True"
    and signs: "secp256k1Sign P (signDigest P (signMsgOf t meta)) (privateKey keyPair) \<noteq> None"
    and valid: "\<forall>g\<in>set (attached t). verifySignature P (signMsgOf t meta) g"
  shows "\<exists>r. signTx P t meta keyPair = Inr r \<and> verifyTx P r meta"
proof -
  from signs obtain sb
    where sb: "secp256k1Sign P (signDigest P (signMsgOf t meta)) (privateKey keyPair) = Some sb"
    by auto
  define g where "g = \<lparr> signature = bytesToBase64 P sb,
                 pub_key = \<lparr> pk_type = ''tendermint/PubKeySecp256k1'',
                             pk_value = bytesToBase64 P (publicKey keyPair) \<rparr> \<rparr>"
  have cs: "createSignature P (signMsgOf t meta) keyPair = Inr g"
    unfolding g_def using sb by (rule createSignature_Some)
  have new: "verifySignature P (signMsgOf t meta) g"
    using ecdsa [OF sb] by (simp add: verifySignature_digest g_def base64 pair)
  from cs obtain r where r: "signTx P t meta keyPair = Inr r"
    by (simp add: signTx_Inr)
  have sigs: "signatures r = attached t @ [g]"
    using r cs by (cases t) (auto simp: signTx_Inr)
  have same: "createSignMsg r meta = signMsgOf t meta"
    using r by (rule signTx_signMsg)
  have "verifyTx P r meta"
    using valid new by (simp add: verifyTx_def verifySignatures_iff sigs same)
  with r show ?thesis by blast
qed

text \<open>
  The amended claim at a transaction that carries one valid signature and receives a
  second one.
\<close>

theorem signTx_verifyTx_witness:
  "\<exists>r. signTx stand_in (IsStdTx example_stdTx) example_meta example_keyPair = Inr r
      \<and> verifyTx stand_in r example_meta"
proof (rule signTx_verifyTx)
  show "publicKey example_keyPair
          = secp256k1PublicKeyCreate stand_in (privateKey example_keyPair) True"
    by (rule example_keyPair_pair)
  show "secp256k1Sign stand_in
          (signDigest stand_in (signMsgOf (IsStdTx example_stdTx) example_meta))
          (privateKey example_keyPair) \<noteq> None"
    by (simp add: example_keyPair_def stand_in_def)
  show "\<forall>g\<in>set (attached (IsStdTx example_stdTx)).
          verifySignature stand_in (signMsgOf (IsStdTx example_stdTx) example_meta) g"
    by code_simp
qed (simp_all add: stand_in_ecdsa stand_in_base64)

text \<open>
  The claim as stated fails at \<open>example_stdTx\<close>, which carries a signature made for
  \<open>example_meta\<close>, signed with \<open>other_meta\<close>: the key pair is a proper one, signing
  succeeds and appends the signature of the key pair, and verification of the result with
  \<open>other_meta\<close> is false, because the signature carried before covers another digest.
\<close>

theorem signTx_verifyTx_counterexample:
  "publicKey example_keyPair
     = secp256k1PublicKeyCreate stand_in (privateKey example_keyPair) True
   \<and> signTx stand_in (IsStdTx example_stdTx) other_meta example_keyPair
       = Inr (example_stdTx\<lparr> signatures := signatures example_stdTx @ [other_signature] \<rparr>)
   \<and> \<not> verifyTx stand_in
         (example_stdTx\<lparr> signatures := signatures example_stdTx @ [other_signature] \<rparr>)
         other_meta"
  by code_simp

text \<open>
  C2. \<^verbatim>\<open>verifyTx(tx, meta)\<close> is true if and only if \<^verbatim>\<open>tx.signatures\<close> is not empty and every
  entry of it verifies, with the public key that the entry itself carries, against the
  SHA-256 digest of the canonical bytes of the sign message rebuilt from \<^verbatim>\<open>tx\<close> and
  \<^verbatim>\<open>meta\<close>. In particular the empty list of signatures gives false, and one entry that
  fails, wherever it is in the list, gives false.
\<close>

theorem verifyTx_iff:
  "(verifyTx P t meta \<longleftrightarrow>
      signatures t \<noteq> []
      \<and> (\<forall>g\<in>set (signatures t).
            secp256k1Verify P
              (sha256 P (toCanonicalJSONBytes (StdSignMsg_json (createSignMsg t meta))))
              (base64ToBytes P (signature g))
              (base64ToBytes P (pk_value (pub_key g)))))
   \<and> (signatures t = [] \<longrightarrow> \<not> verifyTx P t meta)
   \<and> (\<forall>g\<in>set (signatures t).
         \<not> verifySignature P (createSignMsg t meta) g \<longrightarrow> \<not> verifyTx P t meta)"
  by (auto simp: verifyTx_def verifySignatures_iff verifySignature_digest signDigest_def)

text \<open>
  At \<open>example_stdTx\<close> the list is not empty and its entry verifies, so the transaction
  verifies with \<open>example_meta\<close>; with \<open>other_meta\<close> the entry fails, so the transaction
  does not verify.
\<close>

theorem verifyTx_iff_witness:
  "signatures example_stdTx \<noteq> []
   \<and> list_all
        (\<lambda>g. secp256k1Verify stand_in
           (sha256 stand_in
              (toCanonicalJSONBytes (StdSignMsg_json (createSignMsg example_stdTx example_meta))))
           (base64ToBytes stand_in (signature g))
           (base64ToBytes stand_in (pk_value (pub_key g))))
        (signatures example_stdTx)
   \<and> verifyTx stand_in example_stdTx example_meta
   \<and> list_ex (\<lambda>g. \<not> verifySignature stand_in (createSignMsg example_stdTx other_meta) g)
        (signatures example_stdTx)
   \<and> \<not> verifyTx stand_in example_stdTx other_meta"
proof -
  have 1: "signatures example_stdTx \<noteq> []"
    by (simp add: example_stdTx_def)
  have 2: "list_all
        (\<lambda>g. secp256k1Verify stand_in
           (sha256 stand_in
              (toCanonicalJSONBytes (StdSignMsg_json (createSignMsg example_stdTx example_meta))))
           (base64ToBytes stand_in (signature g))
           (base64ToBytes stand_in (pk_value (pub_key g))))
        (signatures example_stdTx)"
    by code_simp
  have 3: "list_ex (\<lambda>g. \<not> verifySignature stand_in (createSignMsg example_stdTx other_meta) g)
        (signatures example_stdTx)"
    by code_simp
  from 1 2 have 4: "verifyTx stand_in example_stdTx example_meta"
    using verifyTx_iff [of stand_in example_stdTx example_meta]
    by (simp add: list_all_iff)
  from 3 have 5: "\<not> verifyTx stand_in example_stdTx other_meta"
    using verifyTx_iff [of stand_in example_stdTx other_meta]
    unfolding list_ex_iff by blast
  from 1 2 3 4 5 show ?thesis by blast
qed

text \<open>
  C3. \<^verbatim>\<open>signTx\<close> fails only if \<^verbatim>\<open>createSignature\<close> does (the signer rejects the private key).
  Otherwise it returns a transaction whose list of signatures is the list that the argument
  carries (the empty list if the argument has no field \<^verbatim>\<open>signatures\<close>) followed by the one new
  signature: the list is longer by one and the earlier entries are unchanged and in their
  order. Every other field of the argument, among them whatever sibling fields it has, is
  in the result unchanged. The argument is a value and is not modified.
\<close>

theorem signTx_appends:
  "case createSignature P (signMsgOf t meta) keyPair of
     Inl e \<Rightarrow> signTx P t meta keyPair = Inl e
   | Inr g \<Rightarrow>
       (\<exists>r. signTx P t meta keyPair = Inr r
          \<and> signatures r = attached t @ [g]
          \<and> length (signatures r) = length (attached t) + 1
          \<and> take (length (attached t)) (signatures r) = attached t
          \<and> (case t of
                IsTx u \<Rightarrow>
                  fee r = fee u \<and> memo r = memo u \<and> msg r = msg u
                  \<and> StdTx.more r = Tx.more u
              | IsStdTx s \<Rightarrow>
                  fee r = fee s \<and> memo r = memo s \<and> msg r = msg s
                  \<and> StdTx.more r = StdTx.more s))"
proof (cases "createSignature P (signMsgOf t meta) keyPair")
  case (Inl e)
  then show ?thesis by (simp add: signTx_Inl)
next
  case (Inr g)
  then show ?thesis by (cases t) (simp_all add: signTx_Inr)
qed

text \<open>\<open>example_stdTx\<close>, which carries one signature, signed with \<open>example_keyPair\<close>.\<close>

theorem signTx_appends_witness:
  "\<exists>r. signTx stand_in (IsStdTx example_stdTx) example_meta example_keyPair = Inr r
      \<and> signatures r = signatures example_stdTx @ [example_signature]
      \<and> length (signatures r) = 2
      \<and> fee r = fee example_stdTx \<and> memo r = memo example_stdTx
      \<and> msg r = msg example_stdTx"
proof -
  have "createSignature stand_in (signMsgOf (IsStdTx example_stdTx) example_meta) example_keyPair
          = Inr example_signature"
    by code_simp
  moreover have "length (signatures example_stdTx) = 1"
    by (simp add: example_stdTx_def)
  ultimately show ?thesis
    using signTx_appends [of stand_in "IsStdTx example_stdTx" example_meta example_keyPair]
    by auto
qed

text \<open>
  C8. A signature that \<^verbatim>\<open>createSignature\<close> returns has the field \<^verbatim>\<open>signature\<close>, the base64
  text of the raw signature bytes that the signer returned for the digest of the sign
  message and the private key, and the field \<^verbatim>\<open>pub_key\<close> with \<^verbatim>\<open>type\<close> the string
  \<^verbatim>\<open>tendermint/PubKeySecp256k1\<close> and \<^verbatim>\<open>value\<close> the base64 text of the public key of the key
  pair; neither record has another field.
\<close>

theorem createSignature_shape:
  assumes "createSignature P signMsg keyPair = Inr g"
  shows "(\<exists>sb. secp256k1Sign P (signDigest P signMsg) (privateKey keyPair) = Some sb
            \<and> signature g = bytesToBase64 P sb)
     \<and> pk_type (pub_key g) = ''tendermint/PubKeySecp256k1''
     \<and> pk_value (pub_key g) = bytesToBase64 P (publicKey keyPair)
     \<and> PubKey.more (pub_key g) = ()
     \<and> StdSignature.more g = ()"
  using assms
  by (cases "secp256k1Sign P (signDigest P signMsg) (privateKey keyPair)")
     (auto simp: createSignature_Some createSignature_None)

theorem createSignature_shape_witness:
  "createSignature stand_in (createSignMsg example_tx example_meta) example_keyPair
     = Inr example_signature
   \<and> (\<exists>sb. secp256k1Sign stand_in
              (signDigest stand_in (createSignMsg example_tx example_meta))
              (privateKey example_keyPair) = Some sb
          \<and> signature example_signature = bytesToBase64 stand_in sb)
   \<and> pk_type (pub_key example_signature) = ''tendermint/PubKeySecp256k1''
   \<and> pk_value (pub_key example_signature)
       = bytesToBase64 stand_in (publicKey example_keyPair)"
proof -
  have 1: "createSignature stand_in (createSignMsg example_tx example_meta) example_keyPair
     = Inr example_signature"
    by code_simp
  from 1 show ?thesis
    using createSignature_shape [OF 1] by simp
qed

text \<open>
  C9. Two transactions with the same \<^verbatim>\<open>msg\<close>, \<^verbatim>\<open>fee\<close> and \<^verbatim>\<open>memo\<close>, whatever their signatures
  and their other sibling fields are, have the same sign message for the same metadata.
  Hence the digest that a new signature covers, the signature that a key pair makes, and
  the outcome of verifying a signature entry do not depend on the signatures that are
  attached already.
\<close>

theorem createSignMsg_ignores_signatures:
  fixes t1 :: "'a Tx_scheme" and t2 :: "'b Tx_scheme"
  assumes "msg t1 = msg t2" and "fee t1 = fee t2" and "memo t1 = memo t2"
  shows "createSignMsg t1 meta = createSignMsg t2 meta
     \<and> signDigest P (createSignMsg t1 meta) = signDigest P (createSignMsg t2 meta)
     \<and> createSignature P (createSignMsg t1 meta) keyPair
         = createSignature P (createSignMsg t2 meta) keyPair
     \<and> verifySignature P (createSignMsg t1 meta) g
         = verifySignature P (createSignMsg t2 meta) g"
proof -
  have "createSignMsg t1 meta = createSignMsg t2 meta"
    using assms by (simp add: createSignMsg_def)
  then show ?thesis by simp
qed

text \<open>
  \<open>example_stdTx\<close> agrees with the unsigned \<open>example_tx\<close> and with \<open>twice_signed\<close>, whose
  signatures are different.
\<close>

theorem createSignMsg_ignores_signatures_witness:
  "msg example_stdTx = msg example_tx \<and> fee example_stdTx = fee example_tx
   \<and> memo example_stdTx = memo example_tx
   \<and> signatures example_stdTx \<noteq> signatures twice_signed
   \<and> createSignMsg example_stdTx example_meta = createSignMsg example_tx example_meta
   \<and> createSignMsg example_stdTx example_meta = createSignMsg twice_signed example_meta
   \<and> signDigest stand_in (createSignMsg example_stdTx example_meta)
       = signDigest stand_in (createSignMsg twice_signed example_meta)"
proof -
  have 1: "msg example_stdTx = msg example_tx" "fee example_stdTx = fee example_tx"
    "memo example_stdTx = memo example_tx"
    by (simp_all add: example_stdTx_def)
  have 2: "msg example_stdTx = msg twice_signed" "fee example_stdTx = fee twice_signed"
    "memo example_stdTx = memo twice_signed"
    by (simp_all add: example_stdTx_def twice_signed_def)
  have 3: "signatures example_stdTx \<noteq> signatures twice_signed"
    by (simp add: example_stdTx_def twice_signed_def)
  note a = createSignMsg_ignores_signatures
    [OF 1, of example_meta stand_in example_keyPair example_signature]
  note b = createSignMsg_ignores_signatures
    [OF 2, of example_meta stand_in example_keyPair example_signature]
  show ?thesis using 1 3 a b by simp
qed

section \<open>Canonical bytes\<close>

text \<open>
  C5. If two JSON values, such as two sign messages, are the same up to the order in which
  the keys of their objects were inserted, their canonical bytes are equal. In the
  canonical form the keys of every object, at every nesting level, are in ascending
  order: the text of an object lists its entries in the order of the sorted keys, and the
  text of an array lists its elements in their order.
\<close>

theorem toCanonicalJSONBytes_key_order:
  assumes "same_up_to_key_order a b"
  shows "toCanonicalJSONBytes a = toCanonicalJSONBytes b
     \<and> keys_sorted (toCanonicalJSONClone a)
     \<and> (\<forall>kvs. toCanonicalJSON (JObject kvs) =
          ''{'' @ join '','' (map (\<lambda>(k, v). quote k @ '':'' @ toCanonicalJSON v)
                               (sort_key fst kvs)) @ ''}''
          \<and> sorted (map fst (sort_key fst kvs)))
     \<and> (\<forall>xs. toCanonicalJSON (JArray xs) =
          ''['' @ join '','' (map toCanonicalJSON xs) @ '']'')"
proof -
  have "toCanonicalJSONBytes a = toCanonicalJSONBytes b"
    using assms
    by (simp add: toCanonicalJSONBytes_def toCanonicalJSON_def same_up_to_key_order_clone)
  moreover have "sorted (map fst (sort_key fst kvs))" for kvs :: "(string \<times> json) list"
    by simp
  ultimately show ?thesis
    using keys_sorted_clone toCanonicalJSON_object toCanonicalJSON_array by blast
qed

text \<open>
  The sign message of the example and the same object with its keys in another order:
  different values, equal canonical bytes.
\<close>

theorem toCanonicalJSONBytes_key_order_witness:
  "same_up_to_key_order (StdSignMsg_json (createSignMsg example_tx example_meta))
     reordered_signMsg
   \<and> StdSignMsg_json (createSignMsg example_tx example_meta) \<noteq> reordered_signMsg
   \<and> toCanonicalJSONBytes (StdSignMsg_json (createSignMsg example_tx example_meta))
       = toCanonicalJSONBytes reordered_signMsg"
proof -
  have "StdSignMsg_json (createSignMsg example_tx example_meta) \<noteq> reordered_signMsg"
    by (simp add: StdSignMsg_json_def reordered_signMsg_def)
  then show ?thesis
    using signMsg_reordered toCanonicalJSONBytes_key_order [OF signMsg_reordered] by blast
qed

section \<open>Keys and addresses\<close>

text \<open>
  C6. \<^verbatim>\<open>createKeyPairFromMasterKey\<close> fails with the derivation error exactly when the key
  derived at the path has no private key, and it fails in no other way. If the derived key
  has a private key, the result is the key pair of that private key and the compressed
  public key that \<^verbatim>\<open>secp256k1PublicKeyCreate\<close> computes from it. The path defaults to
  \<^verbatim>\<open>m/44'/118'/0'/0/0\<close>.
\<close>

theorem createKeyPairFromMasterKey_result:
  "(createKeyPairFromMasterKey P masterKey (Some path) = Inl DerivationError
      \<longleftrightarrow> bip32_privateKey (derivePath masterKey path) = None)
   \<and> (\<forall>e. createKeyPairFromMasterKey P masterKey (Some path) = Inl e
         \<longrightarrow> e = DerivationError)
   \<and> (\<forall>k. bip32_privateKey (derivePath masterKey path) = Some k
         \<longrightarrow> createKeyPairFromMasterKey P masterKey (Some path)
               = Inr \<lparr> privateKey = k, publicKey = secp256k1PublicKeyCreate P k True \<rparr>)
   \<and> createKeyPairFromMasterKey P masterKey None
       = createKeyPairFromMasterKey P masterKey (Some ''m/44'/118'/0'/0/0'')"
  by (auto simp: createKeyPairFromMasterKey_def COSMOS_PATH_def split: option.splits)

text \<open>
  \<open>example_masterKey\<close> has no private key at \<^verbatim>\<open>m/44'/118'/0'/0/1\<close> and the private key
  \<open>[1, 2, 3]\<close> at the default path.
\<close>

theorem createKeyPairFromMasterKey_result_witness:
  "bip32_privateKey (derivePath example_masterKey ''m/44'/118'/0'/0/1'') = None
   \<and> createKeyPairFromMasterKey stand_in example_masterKey (Some ''m/44'/118'/0'/0/1'')
       = Inl DerivationError
   \<and> bip32_privateKey (derivePath example_masterKey ''m/44'/118'/0'/0/0'') = Some [1, 2, 3]
   \<and> createKeyPairFromMasterKey stand_in example_masterKey None
       = Inr \<lparr> privateKey = [1, 2, 3], publicKey = [2, 3, 4] \<rparr>"
proof -
  have 1: "bip32_privateKey (derivePath example_masterKey ''m/44'/118'/0'/0/1'') = None"
    by (simp add: example_masterKey_def COSMOS_PATH_def)
  have 2: "bip32_privateKey (derivePath example_masterKey ''m/44'/118'/0'/0/0'')
             = Some [1, 2, 3]"
    by (simp add: example_masterKey_def COSMOS_PATH_def)
  have 3: "secp256k1PublicKeyCreate stand_in [1, 2, 3] True = [2, 3, 4]"
    by (simp add: stand_in_def)
  show ?thesis
    using 1 2 3
      createKeyPairFromMasterKey_result [of stand_in example_masterKey "''m/44'/118'/0'/0/1''"]
      createKeyPairFromMasterKey_result [of stand_in example_masterKey "''m/44'/118'/0'/0/0''"]
    by simp
qed

text \<open>
  C7. The claim: for every well-formed 33-byte compressed public key and every prefix, the
  address operation returns the bech32 encoding, with that prefix (by default \<^verbatim>\<open>cosmos\<close>),
  of the 5-bit words of \<^verbatim>\<open>ripemd160(sha256(publicKey))\<close>; it is deterministic and cannot
  fail.

  \<^verbatim>\<open>createAddress\<close> hands the prefix to the encoder as it is, and an encoder of bech32 does
  not accept every prefix, so the claim fails for a prefix that the encoder rejects (see
  the counterexample below). As amended: the address is a function of the public key and
  the prefix, the prefix \<^verbatim>\<open>cosmos\<close> being the default; whenever the encoder accepts the
  prefix and the 5-bit words of \<^verbatim>\<open>ripemd160(sha256(publicKey))\<close>, \<^verbatim>\<open>createAddress\<close> returns
  the encoding; it fails exactly when the encoder rejects them, and in no other way.
\<close>

theorem createAddress_bech32:
  "(bech32Encode P prefix (bech32ToWords P (ripemd160 P (sha256 P pubKey))) = Some a
      \<longrightarrow> createAddress P pubKey (Some prefix) = Inr a)
   \<and> (createAddress P pubKey (Some prefix) = Inl Bech32Error
      \<longleftrightarrow> bech32Encode P prefix (bech32ToWords P (ripemd160 P (sha256 P pubKey))) = None)
   \<and> (\<forall>e. createAddress P pubKey (Some prefix) = Inl e \<longrightarrow> e = Bech32Error)
   \<and> createAddress P pubKey None = createAddress P pubKey (Some ''cosmos'')"
  by (auto simp: createAddress_def COSMOS_PREFIX_def split: option.splits)

text \<open>
  The default prefix and a prefix of 51 characters are accepted for the 32 words of a
  digest of 20 bytes.
\<close>

theorem createAddress_bech32_witness:
  "bech32Encode stand_in ''cosmos''
      (bech32ToWords stand_in (ripemd160 stand_in (sha256 stand_in example_publicKey)))
     = Some ''cosmos1yg3jgffxyu5zj23t9skjutesxyerxdp4hzqkvd''
   \<and> createAddress stand_in example_publicKey None
     = Inr ''cosmos1yg3jgffxyu5zj23t9skjutesxyerxdp4hzqkvd''
   \<and> length (bech32ToWords stand_in (ripemd160 stand_in (sha256 stand_in example_publicKey)))
     = 32
   \<and> createAddress stand_in example_publicKey (Some (butlast long_prefix)) \<noteq> Inl Bech32Error"
proof -
  have 1: "bech32Encode stand_in ''cosmos''
      (bech32ToWords stand_in (ripemd160 stand_in (sha256 stand_in example_publicKey)))
     = Some ''cosmos1yg3jgffxyu5zj23t9skjutesxyerxdp4hzqkvd''"
    by code_simp
  have 2: "length (bech32ToWords stand_in (ripemd160 stand_in (sha256 stand_in example_publicKey)))
     = 32"
    by code_simp
  have 3: "bech32Encode stand_in (butlast long_prefix)
      (bech32ToWords stand_in (ripemd160 stand_in (sha256 stand_in example_publicKey)))
     \<noteq> None"
    by code_simp
  note a = createAddress_bech32 [of stand_in "''cosmos''" example_publicKey "''cosmos1yg3jgffxyu5zj23t9skjutesxyerxdp4hzqkvd''"]
  note b = createAddress_bech32 [of stand_in "butlast long_prefix" example_publicKey]
  from 1 a have 4: "createAddress stand_in example_publicKey None = Inr ''cosmos1yg3jgffxyu5zj23t9skjutesxyerxdp4hzqkvd''"
    by simp
  from 3 b have 5:
    "createAddress stand_in example_publicKey (Some (butlast long_prefix)) \<noteq> Inl Bech32Error"
    by simp
  from 1 2 4 5 show ?thesis by simp
qed

text \<open>
  The claim as stated fails at a prefix of 52 characters: with the separator, the 32 words
  of the digest and the six characters of the checksum the address would have 91
  characters, the encoder rejects it, and \<^verbatim>\<open>createAddress\<close> fails for a public key of 33
  bytes.
\<close>

theorem createAddress_bech32_counterexample:
  "length example_publicKey = 33
   \<and> length long_prefix = 52
   \<and> createAddress stand_in example_publicKey (Some long_prefix) = Inl Bech32Error"
  by code_simp

section \<open>The sign message and the broadcast\<close>

text \<open>
  C4. The sign message built by \<^verbatim>\<open>createSignMsg(tx, meta)\<close> is the record of exactly the six
  fields \<^verbatim>\<open>account_number\<close>, \<^verbatim>\<open>chain_id\<close>, \<^verbatim>\<open>fee\<close>, \<^verbatim>\<open>memo\<close>, \<^verbatim>\<open>msgs\<close>, \<^verbatim>\<open>sequence\<close>
  (the extension part of the record is empty): the account number, the chain id and the
  sequence are those of the metadata, the fee and the memo are those of the transaction,
  and \<^verbatim>\<open>msgs\<close> is the transaction's list \<^verbatim>\<open>msg\<close>, every element at its position.
\<close>

theorem createSignMsg_fields:
  "sm_account_number (createSignMsg t meta) = account_number meta
   \<and> sm_chain_id (createSignMsg t meta) = chain_id meta
   \<and> sm_sequence (createSignMsg t meta) = sequence meta
   \<and> sm_fee (createSignMsg t meta) = fee t
   \<and> sm_memo (createSignMsg t meta) = memo t
   \<and> msgs (createSignMsg t meta) = msg t
   \<and> StdSignMsg.more (createSignMsg t meta) = ()"
  by (simp add: createSignMsg_def)

text \<open>
  C10. \<^verbatim>\<open>createBroadcastTx(tx, mode)\<close> is the pair of \<^verbatim>\<open>tx\<close>, unchanged, and \<^verbatim>\<open>mode\<close>, whatever
  string it is; without a mode the pair has the mode \<^verbatim>\<open>sync\<close>. The pair has no other field.
\<close>

theorem createBroadcastTx_pair:
  "tx (createBroadcastTx t (Some m)) = t
   \<and> mode (createBroadcastTx t (Some m)) = m
   \<and> tx (createBroadcastTx t None) = t
   \<and> mode (createBroadcastTx t None) = ''sync''
   \<and> BroadcastTx.more (createBroadcastTx t mode_opt) = ()"
  by (simp add: createBroadcastTx_def BROADCAST_MODE_SYNC_def)

end
